theory Spec2Isabelle
  imports Main "HOL-Library.Word"
begin

section \<open>The CoAP demo programs: multicast-and-observe server, discovery-and-observe client\<close>

text \<open>
  The two programs are glue code over the go-coap library and the Go standard library.
  The embedding keeps the handlers and the loops of \<^verbatim>\<open>server/main.go\<close> and the
  discovery callback, the wait and the address rewriting of \<^verbatim>\<open>client/main.go\<close>
  (both variants found in that file). What the programs do to the outside is written
  into an explicit world: the log lines, the messages handed to \<^verbatim>\<open>WriteMessage\<close>
  with the result of each write, the sleeps and the goroutines started, in program order.
  What the outside does to the programs is an environment: the successive readings of the
  clock and the result of each write on the connection.
\<close>

subsection \<open>Library data: codes, message types, messages\<close>

text \<open>\<^verbatim>\<open>codes.Code\<close> is a \<^verbatim>\<open>uint16\<close>; the constants are the library's.\<close>

type_synonym code = "16 word"

definition codes_Empty :: code where "codes_Empty = 0"
definition codes_GET :: code where "codes_GET = 1"
definition codes_POST :: code where "codes_POST = 2"
definition codes_PUT :: code where "codes_PUT = 3"
definition codes_DELETE :: code where "codes_DELETE = 4"
definition codes_Content :: code where "codes_Content = 69"

text \<open>\<^verbatim>\<open>message.Type\<close>: the four CoAP message types, and the library's unset value.\<close>

datatype msgtype = Confirmable | NonConfirmable | Acknowledgement | Reset | Unset

text \<open>\<^verbatim>\<open>message.MediaType\<close> is a \<^verbatim>\<open>uint16\<close>; \<^verbatim>\<open>message.TextPlain\<close> is 0.\<close>

type_synonym mediatype = "16 word"

definition TextPlain :: mediatype where "TextPlain = 0"

type_synonym token = "8 word list"

text \<open>
  A message as the programs see it: code, token, type, body and the three options they
  read or set. An option that is absent is \<open>None\<close>. The observe option is a
  \<^verbatim>\<open>uint32\<close>.
\<close>

record message =
  Code :: code
  Token :: token
  Type :: msgtype
  Body :: "string option"
  OptPath :: "string option"
  OptContentFormat :: "mediatype option"
  OptObserve :: "32 word option"

datatype error =
    ErrOptionNotFound
  | AddrError string
  | ErrWrite string

text \<open>\<^verbatim>\<open>cc.AcquireMessage\<close>: a message of the pool, reset.\<close>

definition AcquireMessage :: message where
  "AcquireMessage =
     \<lparr>Code = codes_Empty, Token = [], Type = Unset, Body = None,
      OptPath = None, OptContentFormat = None, OptObserve = None\<rparr>"

text \<open>
  \<^verbatim>\<open>Options().Path()\<close> and \<^verbatim>\<open>Options().Observe()\<close> return a value and an
  error; the error is the library's "option not found".
\<close>

definition Options_Path :: "message \<Rightarrow> error + string" where
  "Options_Path r = (case OptPath r of None \<Rightarrow> Inl ErrOptionNotFound | Some p \<Rightarrow> Inr p)"

definition Options_Observe :: "message \<Rightarrow> error + 32 word" where
  "Options_Observe r = (case OptObserve r of None \<Rightarrow> Inl ErrOptionNotFound | Some v \<Rightarrow> Inr v)"

text \<open>A connection is known by its remote address.\<close>

record conn =
  RemoteAddr :: string

text \<open>
  \<^verbatim>\<open>mux.ResponseWriter\<close>: the connection and the response message the router sends
  after the handler returns. \<^verbatim>\<open>SetResponse\<close> sets the code, resets the options to
  the ones passed (none here), and sets content format and body.
\<close>

record responseWriter =
  Conn :: conn
  response :: message

definition SetResponse :: "code \<Rightarrow> mediatype \<Rightarrow> string \<Rightarrow> responseWriter \<Rightarrow> responseWriter" where
  "SetResponse c cf d rw =
     rw\<lparr>response := (response rw)\<lparr>Code := c, OptPath := None, OptObserve := None,
                                     OptContentFormat := Some cf, Body := Some d\<rparr>\<rparr>"

subsection \<open>The world and the environment\<close>

datatype event =
    Log string
  | Write conn message "error option"
  | Sleep int
  | Go conn token

text \<open>
  \<open>Log f\<close>: a \<^verbatim>\<open>log.Printf\<close> with format string \<open>f\<close>.
  \<open>Write cc m r\<close>: \<^verbatim>\<open>cc.WriteMessage(m)\<close>, which returned \<open>r\<close>.
  \<open>Sleep d\<close>: \<^verbatim>\<open>time.Sleep(d)\<close>, \<open>d\<close> in nanoseconds.
  \<open>Go cc token\<close>: \<^verbatim>\<open>go periodicTransmitter(cc, token)\<close>.
\<close>

record world =
  trace :: "event list"
  reads :: nat
  writes :: nat

record env =
  clock :: "nat \<Rightarrow> int"
  wresult :: "nat \<Rightarrow> error option"

text \<open>
  \<open>clock e n\<close> is the \<open>n\<close>-th reading of the clock, in nanoseconds; \<open>wresult e n\<close> is
  what the \<open>n\<close>-th call of \<^verbatim>\<open>WriteMessage\<close> returns (\<open>None\<close> is Go's \<^verbatim>\<open>nil\<close>).
\<close>

definition logPrintf :: "string \<Rightarrow> world \<Rightarrow> world" where
  "logPrintf f w = w\<lparr>trace := trace w @ [Log f]\<rparr>"

definition WriteMessage :: "env \<Rightarrow> conn \<Rightarrow> message \<Rightarrow> world \<Rightarrow> error option \<times> world" where
  "WriteMessage e cc m w =
     (let r = wresult e (writes w)
      in (r, w\<lparr>trace := trace w @ [Write cc m r], writes := Suc (writes w)\<rparr>))"

text \<open>
  A sleep is recorded in the trace. How much time has passed shows in the later readings
  of the clock, which the environment gives; nothing is assumed about them.
\<close>

definition time_Sleep :: "int \<Rightarrow> world \<Rightarrow> world" where
  "time_Sleep d w = w\<lparr>trace := trace w @ [Sleep d]\<rparr>"

definition time_Now :: "env \<Rightarrow> world \<Rightarrow> int \<times> world" where
  "time_Now e w = (clock e (reads w), w\<lparr>reads := Suc (reads w)\<rparr>)"

subsection \<open>Durations of the Go standard library\<close>

text \<open>
  A \<^verbatim>\<open>time.Duration\<close> is an \<^verbatim>\<open>int64\<close> count of nanoseconds. \<^verbatim>\<open>Time.Sub\<close>
  saturates at the least and the greatest duration; \<^verbatim>\<open>time.Since(t)\<close> is
  \<^verbatim>\<open>time.Now().Sub(t)\<close>.
\<close>

definition Second :: int where "Second = 1000000000"
definition minDuration :: int where "minDuration = - (2 ^ 63)"
definition maxDuration :: int where "maxDuration = 2 ^ 63 - 1"

definition Sub :: "int \<Rightarrow> int \<Rightarrow> int" where
  "Sub t u = max minDuration (min maxDuration (t - u))"

definition time_Since :: "env \<Rightarrow> int \<Rightarrow> world \<Rightarrow> int \<times> world" where
  "time_Since e t w = (let (now, w') = time_Now e w in (Sub now t, w'))"

text \<open>
  \<^verbatim>\<open>Duration.String\<close>, which \<^verbatim>\<open>%v\<close> prints: \<^verbatim>\<open>fmtInt\<close> writes a decimal
  number, \<^verbatim>\<open>fmtFrac\<close> writes the last \<open>prec\<close> digits as a fraction without its
  trailing zeros and returns the rest. Below one second the unit is ns, \<^verbatim>\<open>\<mu>s\<close>
  (the micro sign in UTF-8, two bytes) or ms; from one second on the form is
  \<^verbatim>\<open>72h3m0.5s\<close>.
\<close>

definition digit :: "int \<Rightarrow> char" where
  "digit d = ''0123456789'' ! nat (d mod 10)"

function fmtDigits :: "int \<Rightarrow> string" where
  "fmtDigits v = (if v \<le> 0 then [] else fmtDigits (v div 10) @ [digit (v mod 10)])"
  by pat_completeness auto
termination
  by (relation "measure nat") auto

definition fmtInt :: "int \<Rightarrow> string" where
  "fmtInt v = (if v = 0 then ''0'' else fmtDigits v)"

fun fmtFracLoop :: "nat \<Rightarrow> int \<Rightarrow> bool \<Rightarrow> string \<Rightarrow> string \<times> int" where
  "fmtFracLoop 0 v print buf = ((if print then CHR ''.'' # buf else buf), v)"
| "fmtFracLoop (Suc i) v print buf =
     (let d = v mod 10; print' = (print \<or> d \<noteq> 0)
      in fmtFracLoop i (v div 10) print' (if print' then digit d # buf else buf))"

definition fmtFrac :: "int \<Rightarrow> nat \<Rightarrow> string \<times> int" where
  "fmtFrac v prec = fmtFracLoop prec v False []"

definition fmtUnit :: "int \<Rightarrow> nat \<Rightarrow> string \<Rightarrow> string" where
  "fmtUnit u prec unit = (case fmtFrac u prec of (f, u') \<Rightarrow> fmtInt u' @ f @ unit)"

definition fmtSmall :: "int \<Rightarrow> string" where
  "fmtSmall u =
     (if u = 0 then ''0s''
      else if u < 1000 then fmtUnit u 0 ''ns''
      else if u < 1000000 then fmtUnit u 3 [CHR 0xC2, CHR 0xB5, CHR ''s'']
      else fmtUnit u 6 ''ms'')"

definition fmtMinutes :: "int \<Rightarrow> string" where
  "fmtMinutes u =
     (if u > 0 then
        (if u div 60 > 0 then fmtInt (u div 60) @ ''h'' else []) @ fmtInt (u mod 60) @ ''m''
      else [])"

definition fmtLarge :: "int \<Rightarrow> string" where
  "fmtLarge u =
     (case fmtFrac u 9 of (f, u1) \<Rightarrow> fmtMinutes (u1 div 60) @ fmtInt (u1 mod 60) @ f @ ''s'')"

definition Duration_String :: "int \<Rightarrow> string" where
  "Duration_String d =
     (let u = \<bar>d\<bar>;
          s = (if u < 1000000000 then fmtSmall u else fmtLarge u)
      in if d < 0 then CHR ''-'' # s else s)"

subsection \<open>The server: \<^verbatim>\<open>server/main.go\<close>\<close>

definition getPath :: "message \<Rightarrow> world \<Rightarrow> string \<times> world" where
  "getPath opts w =
     (case Options_Path opts of
        Inl err \<Rightarrow> ('''', logPrintf ''cannot get path: %v'' w)
      | Inr path \<Rightarrow> (path, w))"

text \<open>
  \<^verbatim>\<open>sendResponse(cc, token, subded, obs)\<close>: \<open>obs\<close> is an \<^verbatim>\<open>int64\<close>; the observe
  option is set to \<^verbatim>\<open>uint32(obs)\<close>, the low 32 bits, when \<open>obs\<close> is not negative.
\<close>

definition sendResponse ::
  "env \<Rightarrow> conn \<Rightarrow> token \<Rightarrow> int \<Rightarrow> 64 word \<Rightarrow> world \<Rightarrow> error option \<times> world" where
  "sendResponse e cc token subded obs w =
     (let m = AcquireMessage;
          m = m\<lparr>Code := codes_Content\<rparr>;
          m = m\<lparr>Token := token\<rparr>;
          (d, w) = time_Since e subded w;
          m = m\<lparr>Body := Some (''Been running for '' @ Duration_String d)\<rparr>;
          m = m\<lparr>OptContentFormat := Some TextPlain\<rparr>;
          m = (if 0 \<le> sint obs then m\<lparr>OptObserve := Some (ucast obs)\<rparr> else m)
      in WriteMessage e cc m w)"

text \<open>
  The loop of \<^verbatim>\<open>periodicTransmitter\<close> has no exit but the return on a write error.
  It is run with fuel, the number of iterations watched: \<open>Running w\<close> is the world after
  that many iterations with the loop still going, \<open>Returned w\<close> the world in which the
  function has returned.
\<close>

datatype run = Running world | Returned world

fun transmitLoop ::
  "nat \<Rightarrow> env \<Rightarrow> conn \<Rightarrow> token \<Rightarrow> int \<Rightarrow> 64 word \<Rightarrow> world \<Rightarrow> run" where
  "transmitLoop 0 e cc token subded obs w = Running w"
| "transmitLoop (Suc n) e cc token subded obs w =
     (case sendResponse e cc token subded obs w of
        (Some err, w') \<Rightarrow> Returned (logPrintf ''Error on transmitter, stopping: %v'' w')
      | (None, w') \<Rightarrow> transmitLoop n e cc token subded (obs + 1) (time_Sleep Second w'))"

definition periodicTransmitter :: "nat \<Rightarrow> env \<Rightarrow> conn \<Rightarrow> token \<Rightarrow> world \<Rightarrow> run" where
  "periodicTransmitter n e cc token w =
     (let (subded, w) = time_Now e w in transmitLoop n e cc token subded 2 w)"

definition handleMcast ::
  "responseWriter \<Rightarrow> message \<Rightarrow> world \<Rightarrow> responseWriter \<times> world" where
  "handleMcast rw r w =
     (case Options_Path r of
        Inl err \<Rightarrow> (rw, logPrintf ''cannot get path: %v'' w)
      | Inr path \<Rightarrow>
          (let w = logPrintf ''Got mcast message: path=%q: from %v'' w
           in (SetResponse codes_Content TextPlain ''mcast response'' rw, w)))"

text \<open>
  \<^verbatim>\<open>handleObserve\<close>: the \<^verbatim>\<open>go\<close> statement starts the transmitter and does not wait
  for it; the handler's own effect is the event \<open>Go\<close>.
\<close>

definition handleObserve ::
  "env \<Rightarrow> responseWriter \<Rightarrow> message \<Rightarrow> world \<Rightarrow> responseWriter \<times> world" where
  "handleObserve e rw r w =
     (let (path, w) = getPath r w;
          w = logPrintf ''Got message path=%v: %+v from %v'' w;
          obs = Options_Observe r
      in if Code r = codes_GET \<and> obs = Inr 0 then
           (rw, w\<lparr>trace := trace w @ [Go (Conn rw) (Token r)]\<rparr>)
         else if Code r = codes_GET then
           (let (now, w) = time_Now e w;
                (err, w) = sendResponse e (Conn rw) (Token r) now (- 1) w
            in case err of
                 Some x \<Rightarrow> (rw, logPrintf ''Error on transmitter: %v'' w)
               | None \<Rightarrow> (rw, w))
         else (rw, w))"

text \<open>What a world shows: the messages written, in order, and the transmitters started.\<close>

fun written :: "event list \<Rightarrow> message list" where
  "written [] = []"
| "written (Write cc m r # es) = m # written es"
| "written (x # es) = written es"

fun spawned :: "event list \<Rightarrow> (conn \<times> token) list" where
  "spawned [] = []"
| "spawned (Go cc t # es) = (cc, t) # spawned es"
| "spawned (x # es) = spawned es"

fun world_of :: "run \<Rightarrow> world" where
  "world_of (Running w) = w"
| "world_of (Returned w) = w"

text \<open>
  The message \<^verbatim>\<open>sendResponse\<close> hands to \<^verbatim>\<open>WriteMessage\<close> when the time since
  \<open>subded\<close> is \<open>d\<close> (lemma \<open>sendResponse_eq\<close> below), and the messages a run has
  written beyond those of the world it started in.
\<close>

definition notification :: "token \<Rightarrow> int \<Rightarrow> 64 word \<Rightarrow> message" where
  "notification token d obs =
     \<lparr>Code = codes_Content, Token = token, Type = Unset,
      Body = Some (''Been running for '' @ Duration_String d),
      OptPath = None, OptContentFormat = Some TextPlain,
      OptObserve = (if 0 \<le> sint obs then Some (ucast obs) else None)\<rparr>"

definition news :: "world \<Rightarrow> world \<Rightarrow> message list" where
  "news w w' = drop (length (written (trace w))) (written (trace w'))"

subsection \<open>Addresses of the Go standard library\<close>

text \<open>
  \<^verbatim>\<open>net.SplitHostPort\<close>: the port starts after the last colon; a host in square
  brackets ends at the first closing bracket, which must stand just before that colon;
  a host without brackets holds no colon; no other bracket is allowed.
\<close>

fun IndexByte :: "string \<Rightarrow> char \<Rightarrow> nat option" where
  "IndexByte [] c = None"
| "IndexByte (x # xs) c = (if x = c then Some 0 else map_option Suc (IndexByte xs c))"

fun LastIndexByte :: "string \<Rightarrow> char \<Rightarrow> nat option" where
  "LastIndexByte [] c = None"
| "LastIndexByte (x # xs) c =
     (case LastIndexByte xs c of
        Some i \<Rightarrow> Some (Suc i)
      | None \<Rightarrow> if x = c then Some 0 else None)"

definition missingPort :: string where "missingPort = ''missing port in address''"
definition tooManyColons :: string where "tooManyColons = ''too many colons in address''"

definition splitTail ::
  "string \<Rightarrow> nat \<Rightarrow> string \<Rightarrow> nat \<Rightarrow> nat \<Rightarrow> error + string \<times> string" where
  "splitTail hostport i host j k =
     (if IndexByte (drop j hostport) CHR ''['' \<noteq> None then
        Inl (AddrError ''unexpected '[' in address'')
      else if IndexByte (drop k hostport) CHR '']'' \<noteq> None then
        Inl (AddrError ''unexpected ']' in address'')
      else Inr (host, drop (i + 1) hostport))"

definition SplitHostPort :: "string \<Rightarrow> error + string \<times> string" where
  "SplitHostPort hostport =
     (case LastIndexByte hostport CHR '':'' of
        None \<Rightarrow> Inl (AddrError missingPort)
      | Some i \<Rightarrow>
          (if hostport ! 0 = CHR ''['' then
             (case IndexByte hostport CHR '']'' of
                None \<Rightarrow> Inl (AddrError ''missing ']' in address'')
              | Some close \<Rightarrow>
                  if close + 1 = length hostport then Inl (AddrError missingPort)
                  else if close + 1 = i then
                    splitTail hostport i (take (close - 1) (drop 1 hostport)) 1 (close + 1)
                  else if hostport ! (close + 1) = CHR '':'' then Inl (AddrError tooManyColons)
                  else Inl (AddrError missingPort))
           else
             (let host = take i hostport
              in if IndexByte host CHR '':'' \<noteq> None then Inl (AddrError tooManyColons)
                 else splitTail hostport i host 0 0)))"

subsection \<open>The client: \<^verbatim>\<open>client/main.go\<close>\<close>








datatype exit = Fatal string

text \<open>
  Lines 104 to 108 (233 to 237 in the second variant): the observer address is the host
  of the selected device, a colon and the port 5688.
\<close>

definition observerAddr :: "string \<Rightarrow> exit + string" where
  "observerAddr dev =
     (case SplitHostPort dev of
        Inl err \<Rightarrow> Inl (Fatal ''Error parsing address:'')
      | Inr (host, port) \<Rightarrow> Inr (host @ '':5688''))"






subsection \<open>The discovery callbacks run concurrently\<close>













subsection \<open>Concrete inputs\<close>

text \<open>
  A clock that advances by a little more than a second between two readings, a
  connection on which every write succeeds and one on which the third write fails, and
  requests to \<^verbatim>\<open>/observe\<close>.
\<close>

definition env_ok :: env where
  "env_ok = \<lparr>clock = (\<lambda>n. int n * 1000000123), wresult = (\<lambda>n. None)\<rparr>"

definition env_fail :: env where
  "env_fail =
     \<lparr>clock = (\<lambda>n. int n * 1000000123),
      wresult = (\<lambda>n. if n = 2 then Some (ErrWrite ''connection closed'') else None)\<rparr>"

definition world0 :: world where
  "world0 = \<lparr>trace = [], reads = 0, writes = 0\<rparr>"

text \<open>
  A process that read its clock once, at 0, and reads it again an hour later, twice,
  250 nanoseconds apart.
\<close>

definition env_hour :: env where
  "env_hour =
     \<lparr>clock = (\<lambda>n. if n = 0 then 0 else 3600000000000 + int n * 250),
      wresult = (\<lambda>n. None)\<rparr>"

definition world1 :: world where
  "world1 = \<lparr>trace = [], reads = 1, writes = 0\<rparr>"

definition conn0 :: conn where
  "conn0 = \<lparr>RemoteAddr = ''203.0.113.9:40000''\<rparr>"

definition rw0 :: responseWriter where
  "rw0 = \<lparr>Conn = conn0, response = AcquireMessage\<rparr>"

definition request :: "code \<Rightarrow> msgtype \<Rightarrow> 32 word option \<Rightarrow> message" where
  "request c t obs =
     \<lparr>Code = c, Token = [7, 9], Type = t, Body = None,
      OptPath = Some ''/observe'', OptContentFormat = None, OptObserve = obs\<rparr>"



section \<open>Properties of the server\<close>

subsection \<open>What the loop of the transmitter writes\<close>

lemma sendResponse_eq:
  "sendResponse e cc token subded obs w =
     (wresult e (writes w),
      w\<lparr>trace := trace w @
           [Write cc (notification token (Sub (clock e (reads w)) subded) obs) (wresult e (writes w))],
        reads := Suc (reads w), writes := Suc (writes w)\<rparr>)"
  by (simp add: sendResponse_def time_Since_def time_Now_def WriteMessage_def
      notification_def AcquireMessage_def Let_def)

lemma written_append: "written (xs @ ys) = written xs @ written ys"
  by (induction xs rule: written.induct) simp_all

lemma spawned_append: "spawned (xs @ ys) = spawned xs @ spawned ys"
  by (induction xs rule: spawned.induct) simp_all

lemma transmitLoop_running:
  "(\<forall>j<n. wresult e (writes w + j) = None) \<Longrightarrow>
   transmitLoop n e cc token subded obs w =
     Running (w\<lparr>trace := trace w @
        concat (map (\<lambda>j. [Write cc (notification token (Sub (clock e (reads w + j)) subded) (obs + of_nat j)) None,
                         Sleep Second]) [0..<n]),
        reads := reads w + n, writes := writes w + n\<rparr>)"
proof (induction n arbitrary: obs w)
  case 0
  then show ?case by simp
next
  case (Suc n)
  have h0: "wresult e (writes w) = None" using Suc.prems by force
  let ?w1 = "time_Sleep Second (snd (sendResponse e cc token subded obs w))"
  have hj: "\<forall>j<n. wresult e (writes ?w1 + j) = None"
    using Suc.prems by (auto simp: sendResponse_eq time_Sleep_def)
  show ?case
    using Suc.IH [OF hj, of "obs + 1"] h0
    by (simp add: sendResponse_eq time_Sleep_def map_upt_Suc add.assoc del: upt_Suc)
qed

lemma transmitLoop_returned:
  "(\<forall>j<k. wresult e (writes w + j) = None) \<Longrightarrow> wresult e (writes w + k) = Some err \<Longrightarrow> k < n \<Longrightarrow>
   transmitLoop n e cc token subded obs w =
     Returned (w\<lparr>trace := trace w @
        concat (map (\<lambda>j. [Write cc (notification token (Sub (clock e (reads w + j)) subded) (obs + of_nat j)) None,
                         Sleep Second]) [0..<k]) @
        [Write cc (notification token (Sub (clock e (reads w + k)) subded) (obs + of_nat k)) (Some err),
         Log ''Error on transmitter, stopping: %v''],
        reads := Suc (reads w + k), writes := Suc (writes w + k)\<rparr>)"
proof (induction k arbitrary: n obs w)
  case 0
  then obtain n' where n: "n = Suc n'" by (cases n) auto
  from 0 show ?case by (simp add: n sendResponse_eq logPrintf_def)
next
  case (Suc k)
  then obtain n' where n: "n = Suc n'" and kn: "k < n'" by (cases n) auto
  have h0: "wresult e (writes w) = None" using Suc.prems(1) by force
  let ?w1 = "time_Sleep Second (snd (sendResponse e cc token subded obs w))"
  have hj: "\<forall>j<k. wresult e (writes ?w1 + j) = None"
    using Suc.prems(1) by (auto simp: sendResponse_eq time_Sleep_def)
  have hk: "wresult e (writes ?w1 + k) = Some err"
    using Suc.prems(2) by (simp add: sendResponse_eq time_Sleep_def)
  show ?case
    using Suc.IH [OF hj hk kn, of "obs + 1"] h0
    by (simp add: n sendResponse_eq time_Sleep_def map_upt_Suc add.assoc del: upt_Suc)
qed

lemma transmitLoop_written:
  "\<exists>ms. written (trace (world_of (transmitLoop n e cc token subded obs w))) = written (trace w) @ ms \<and>
        length ms \<le> n \<and>
        (\<forall>k<length ms. ms ! k = notification token (Sub (clock e (reads w + k)) subded) (obs + of_nat k))"
proof (induction n arbitrary: obs w)
  case 0
  show ?case by simp
next
  case (Suc n)
  let ?m = "notification token (Sub (clock e (reads w)) subded) obs"
  show ?case
  proof (cases "wresult e (writes w)")
    case (Some err)
    have "written (trace (world_of (transmitLoop (Suc n) e cc token subded obs w))) = written (trace w) @ [?m]"
      using Some by (simp add: sendResponse_eq logPrintf_def written_append)
    then show ?thesis by (intro exI [of _ "[?m]"]) simp
  next
    case None
    let ?w1 = "time_Sleep Second (snd (sendResponse e cc token subded obs w))"
    from Suc.IH [of "obs + 1" ?w1] obtain ms where
      ms: "written (trace (world_of (transmitLoop n e cc token subded (obs + 1) ?w1))) = written (trace ?w1) @ ms"
        "length ms \<le> n"
        "\<forall>k<length ms. ms ! k = notification token (Sub (clock e (reads ?w1 + k)) subded) (obs + 1 + of_nat k)"
      by blast
    have w1: "written (trace ?w1) = written (trace w) @ [?m]" "reads ?w1 = Suc (reads w)"
      by (simp_all add: sendResponse_eq time_Sleep_def written_append)
    have run: "transmitLoop (Suc n) e cc token subded obs w = transmitLoop n e cc token subded (obs + 1) ?w1"
      using None by (simp add: sendResponse_eq)
    have nth: "\<forall>k<length (?m # ms). (?m # ms) ! k = notification token (Sub (clock e (reads w + k)) subded) (obs + of_nat k)"
    proof (intro allI impI)
      fix k assume "k < length (?m # ms)"
      then show "(?m # ms) ! k = notification token (Sub (clock e (reads w + k)) subded) (obs + of_nat k)"
        using ms(3) w1(2) by (cases k) (simp_all add: ac_simps)
    qed
    show ?thesis
      using ms(1,2) nth by (intro exI [of _ "?m # ms"]) (simp add: run w1(1) del: transmitLoop.simps)
  qed
qed

lemma news_append: "written (trace w') = written (trace w) @ ms \<Longrightarrow> news w w' = ms"
  by (simp add: news_def)

lemma written_pushes:
  "written (concat (map (\<lambda>j. [Write cc (f j) None, Sleep d]) xs)) = map f xs"
  by (induction xs) simp_all

lemma periodicTransmitter_written:
  "\<exists>ms. news w (world_of (periodicTransmitter n e cc token w)) = ms \<and>
        length ms \<le> n \<and>
        (\<forall>k<length ms. ms ! k =
           notification token (Sub (clock e (Suc (reads w) + k)) (clock e (reads w))) (2 + of_nat k))"
proof -
  let ?w1 = "w\<lparr>reads := Suc (reads w)\<rparr>"
  from transmitLoop_written [of n e cc token "clock e (reads w)" 2 ?w1]
  obtain ms where ms:
    "written (trace (world_of (transmitLoop n e cc token (clock e (reads w)) 2 ?w1))) = written (trace ?w1) @ ms"
    "length ms \<le> n"
    "\<forall>k<length ms. ms ! k = notification token (Sub (clock e (reads ?w1 + k)) (clock e (reads w))) (2 + of_nat k)"
    by blast
  have "news w (world_of (periodicTransmitter n e cc token w)) = ms"
    using ms(1) by (intro news_append) (simp add: periodicTransmitter_def time_Now_def)
  then show ?thesis using ms(2,3) by simp
qed

lemma periodicTransmitter_running:
  assumes "\<forall>j<n. wresult e (writes w + j) = None"
  shows "periodicTransmitter n e cc token w =
     Running (w\<lparr>trace := trace w @
        concat (map (\<lambda>j. [Write cc (notification token (Sub (clock e (Suc (reads w) + j)) (clock e (reads w)))
                                      (2 + of_nat j)) None,
                         Sleep Second]) [0..<n]),
        reads := Suc (reads w) + n, writes := writes w + n\<rparr>)"
  using transmitLoop_running [of n e "w\<lparr>reads := Suc (reads w)\<rparr>" cc token "clock e (reads w)" 2] assms
  by (simp add: periodicTransmitter_def time_Now_def)

lemma periodicTransmitter_running_news:
  assumes "\<forall>j<n. wresult e (writes w + j) = None"
  shows "news w (world_of (periodicTransmitter n e cc token w)) =
     map (\<lambda>k. notification token (Sub (clock e (Suc (reads w) + k)) (clock e (reads w))) (2 + of_nat k)) [0..<n]"
  by (simp add: periodicTransmitter_running [OF assms] news_def written_append written_pushes)

lemma periodicTransmitter_returned:
  assumes "\<forall>j<k. wresult e (writes w + j) = None" and "wresult e (writes w + k) = Some err" and "k < n"
  shows "periodicTransmitter n e cc token w =
     Returned (w\<lparr>trace := trace w @
        concat (map (\<lambda>j. [Write cc (notification token (Sub (clock e (Suc (reads w) + j)) (clock e (reads w)))
                                      (2 + of_nat j)) None,
                         Sleep Second]) [0..<k]) @
        [Write cc (notification token (Sub (clock e (Suc (reads w) + k)) (clock e (reads w))) (2 + of_nat k))
           (Some err),
         Log ''Error on transmitter, stopping: %v''],
        reads := Suc (Suc (reads w) + k), writes := Suc (writes w + k)\<rparr>)"
  using transmitLoop_returned [of k e "w\<lparr>reads := Suc (reads w)\<rparr>" err n cc token "clock e (reads w)" 2] assms
  by (simp add: periodicTransmitter_def time_Now_def)

subsection \<open>The observe option of a push\<close>

lemma sint_of_nat_small: "m < 2 ^ 32 \<Longrightarrow> sint (of_nat m :: 64 word) = int m"
proof -
  assume h: "m < 2 ^ 32"
  have "int m < 2 ^ 32" using h by (metis of_nat_less_iff of_nat_numeral of_nat_power)
  also have "(2::int) ^ 32 < 2 ^ 63" by simp
  finally have "int m < 2 ^ 63" .
  then have "signed_take_bit 63 (int m) = int m"
    by (intro signed_take_bit_int_eq_self) simp_all
  then show ?thesis by (simp add: signed_of_nat)
qed

lemma ucast_of_nat_small: "m < 2 ^ 32 \<Longrightarrow> unat (ucast (of_nat m :: 64 word) :: 32 word) = m"
proof -
  assume h: "m < 2 ^ 32"
  have "m < (2::nat) ^ 64" using h by (rule less_trans) simp
  then have "take_bit 64 m = m" by (simp add: take_bit_nat_eq_self)
  then have "(ucast (of_nat m :: 64 word) :: 32 word) = of_nat m"
    by (simp add: unsigned_of_nat)
  moreover have "take_bit 32 m = m" using h by (simp add: take_bit_nat_eq_self)
  ultimately show ?thesis by (simp add: unsigned_of_nat)
qed

lemma observe_small:
  assumes "k + 2 < 2 ^ 32"
  shows "map_option unat (OptObserve (notification t d (2 + of_nat k))) = Some (k + 2)"
proof -
  have eq: "(2 + of_nat k :: 64 word) = of_nat (k + 2)" by simp
  show ?thesis
    unfolding eq notification_def
    using sint_of_nat_small [OF assms] ucast_of_nat_small [OF assms]
    by (simp del: of_nat_add add_2_eq_Suc' add_2_eq_Suc)
qed

subsection \<open>The synchronous branch of the observe handler\<close>

lemma handleObserve_sync:
  "Code r = codes_GET \<Longrightarrow> OptObserve r \<noteq> Some 0 \<Longrightarrow>
   fst (handleObserve e rw r w) = rw \<and>
   news w (snd (handleObserve e rw r w)) =
     [notification (Token r) (Sub (clock e (Suc (reads w))) (clock e (reads w))) (- 1)] \<and>
   writes (snd (handleObserve e rw r w)) = Suc (writes w) \<and>
   spawned (trace (snd (handleObserve e rw r w))) = spawned (trace w)"
  by (auto simp: handleObserve_def getPath_def Options_Path_def Options_Observe_def logPrintf_def
      time_Now_def sendResponse_eq written_append spawned_append Let_def news_def
      split: option.splits sum.splits prod.splits)

subsection \<open>Two durations as Go prints them\<close>

lemma Duration_String_example: "Duration_String 1000000123 = ''1.000000123s''"
  by code_simp

lemma Duration_String_example2: "Duration_String 2000000246 = ''2.000000246s''"
  by code_simp

lemma Duration_String_example3: "Duration_String 250 = ''250ns''"
  by code_simp

section \<open>The claims about the server\<close>

text \<open>
  C1, as amended. The server starts a periodic transmitter, and returns without writing a
  response itself, exactly when the request to \<^verbatim>\<open>/observe\<close> has the code GET and
  carries the observe option with value 0. The type of the message, confirmable or not,
  plays no part: the handler never reads it.
\<close>

theorem handleObserve_spawn_iff:
  "spawned (trace (snd (handleObserve e rw r w))) =
     spawned (trace w) @
       (if Code r = codes_GET \<and> OptObserve r = Some 0 then [(Conn rw, Token r)] else []) \<and>
   (Code r = codes_GET \<and> OptObserve r = Some 0 \<longrightarrow>
      fst (handleObserve e rw r w) = rw \<and>
      writes (snd (handleObserve e rw r w)) = writes w \<and>
      written (trace (snd (handleObserve e rw r w))) = written (trace w))"
proof (cases "Code r = codes_GET \<and> OptObserve r = Some 0")
  case True
  then show ?thesis
    by (simp add: handleObserve_def getPath_def Options_Path_def Options_Observe_def logPrintf_def
        written_append spawned_append split: option.splits)
next
  case False
  show ?thesis
  proof (cases "Code r = codes_GET")
    case True
    with False have "OptObserve r \<noteq> Some 0" by simp
    from handleObserve_sync [OF True this, of e rw w] False show ?thesis by simp
  next
    case False
    then show ?thesis
      by (simp add: handleObserve_def getPath_def Options_Path_def logPrintf_def
          spawned_append split: option.splits)
  qed
qed

theorem handleObserve_spawn_iff_witness:
  "Code (request codes_GET Confirmable (Some 0)) = codes_GET \<and>
   OptObserve (request codes_GET Confirmable (Some 0)) = Some 0 \<and>
   spawned (trace (snd (handleObserve env_ok rw0 (request codes_GET Confirmable (Some 0)) world0))) =
     [(conn0, [7, 9])] \<and>
   written (trace (snd (handleObserve env_ok rw0 (request codes_GET Confirmable (Some 0)) world0))) = []"
  using handleObserve_spawn_iff [of env_ok rw0 "request codes_GET Confirmable (Some 0)" world0]
  by (simp add: request_def world0_def rw0_def)

text \<open>
  Against C1 as stated: a non-confirmable GET with the observe option 0 starts the
  transmitter.
\<close>

theorem nonconfirmable_get_starts_transmitter:
  "Type (request codes_GET NonConfirmable (Some 0)) = NonConfirmable \<and>
   spawned (trace (snd (handleObserve env_ok rw0 (request codes_GET NonConfirmable (Some 0)) world0))) =
     [(conn0, [7, 9])]"
  by (simp add: handleObserve_def getPath_def Options_Path_def Options_Observe_def logPrintf_def
      request_def world0_def rw0_def)

text \<open>
  C2, as amended. While a transmitter has made at most \<open>2\<^sup>3\<^sup>2 - 2\<close> pushes, the observe
  values of its pushes are 2, 3, 4 and so on, one more at each push: strictly increasing
  and never reused. When no write fails, a run of \<open>n\<close> iterations makes \<open>n\<close> pushes.
\<close>

theorem observe_sequence_first_pushes:
  assumes "n \<le> 4294967294"
  shows "map (\<lambda>m. map_option unat (OptObserve m)) (news w (world_of (periodicTransmitter n e cc token w))) =
           map (\<lambda>k. Some (k + 2)) [0..<length (news w (world_of (periodicTransmitter n e cc token w)))] \<and>
         ((\<forall>j<n. wresult e (writes w + j) = None) \<longrightarrow>
            length (news w (world_of (periodicTransmitter n e cc token w))) = n)"
proof -
  from periodicTransmitter_written [of w n e cc token] obtain ms where
    ms: "news w (world_of (periodicTransmitter n e cc token w)) = ms" "length ms \<le> n"
      "\<forall>k<length ms. ms ! k =
         notification token (Sub (clock e (Suc (reads w) + k)) (clock e (reads w))) (2 + of_nat k)"
    by blast
  have "map (\<lambda>m. map_option unat (OptObserve m)) ms = map (\<lambda>k. Some (k + 2)) [0..<length ms]"
  proof (rule nth_equalityI)
    show "length (map (\<lambda>m. map_option unat (OptObserve m)) ms) = length (map (\<lambda>k. Some (k + 2)) [0..<length ms])"
      by simp
  next
    fix i assume "i < length (map (\<lambda>m. map_option unat (OptObserve m)) ms)"
    then have i: "i < length ms" by simp
    then have "i + 2 < 2 ^ 32" using ms(2) assms by simp
    from observe_small [OF this] ms(3) i
    show "map (\<lambda>m. map_option unat (OptObserve m)) ms ! i = map (\<lambda>k. Some (k + 2)) [0..<length ms] ! i"
      by simp
  qed
  moreover have "(\<forall>j<n. wresult e (writes w + j) = None) \<longrightarrow> length ms = n"
    using ms(1) by (auto simp: periodicTransmitter_running_news)
  ultimately show ?thesis using ms(1) by simp
qed

theorem observe_sequence_first_pushes_witness:
  "(3::nat) \<le> 4294967294 \<and>
   wresult env_ok 0 = None \<and> wresult env_ok 1 = None \<and> wresult env_ok 2 = None \<and>
   map (\<lambda>m. map_option unat (OptObserve m))
     (news world0 (world_of (periodicTransmitter 3 env_ok conn0 [7, 9] world0))) =
     [Some 2, Some 3, Some 4]"
proof -
  have ok: "\<forall>j<3. wresult env_ok (writes world0 + j) = None"
    by (simp add: env_ok_def)
  have up: "[0..<3] = [0, 1, 2]"
    by (simp add: upt_rec)
  from observe_sequence_first_pushes [of 3 world0 env_ok conn0 "[7, 9]"] ok
  have len: "length (news world0 (world_of (periodicTransmitter 3 env_ok conn0 [7, 9] world0))) = 3"
    and eq: "map (\<lambda>m. map_option unat (OptObserve m))
               (news world0 (world_of (periodicTransmitter 3 env_ok conn0 [7, 9] world0))) =
             map (\<lambda>k. Some (k + 2))
               [0..<length (news world0 (world_of (periodicTransmitter 3 env_ok conn0 [7, 9] world0)))]"
    by simp_all
  show ?thesis
    unfolding eq len up by (simp add: env_ok_def)
qed

text \<open>
  Against C2 as stated: the observe option is the \<^verbatim>\<open>uint32\<close> of the counter, so on a
  connection whose writes all succeed the push after the one that carries 4294967295
  carries 0.
\<close>

theorem observe_sequence_wraps:
  "OptObserve (news world0 (world_of (periodicTransmitter 4294967295 env_ok conn0 [7, 9] world0)) ! 4294967293) =
     Some 4294967295 \<and>
   OptObserve (news world0 (world_of (periodicTransmitter 4294967295 env_ok conn0 [7, 9] world0)) ! 4294967294) =
     Some 0"
proof -
  have ok: "\<forall>j<4294967295. wresult env_ok (writes world0 + j) = None"
    by (simp add: env_ok_def)
  show ?thesis
    by (simp add: periodicTransmitter_running_news [OF ok] notification_def)
qed

text \<open>
  C3, as amended. A GET to \<^verbatim>\<open>/observe\<close> without the observe option is answered in
  the handler itself: one call of \<^verbatim>\<open>WriteMessage\<close>, with a message that has no
  observe option (the handler passes -1) and whose body is \<^verbatim>\<open>Been running for\<close>
  followed by the time between the handler's own reading of the clock and the reading
  taken when the body is built. That is the time the handler took, not the time the
  server has been running. No transmitter is started.
\<close>

theorem plain_get_answered_once:
  assumes "Code r = codes_GET" and "OptObserve r = None"
  shows "fst (handleObserve e rw r w) = rw \<and>
         writes (snd (handleObserve e rw r w)) = Suc (writes w) \<and>
         map Body (news w (snd (handleObserve e rw r w))) =
           [Some (''Been running for '' @
                  Duration_String (Sub (clock e (Suc (reads w))) (clock e (reads w))))] \<and>
         map OptObserve (news w (snd (handleObserve e rw r w))) = [None] \<and>
         spawned (trace (snd (handleObserve e rw r w))) = spawned (trace w)"
proof -
  from assms(2) have "OptObserve r \<noteq> Some 0" by simp
  from handleObserve_sync [OF assms(1) this, of e rw w] show ?thesis
    by (simp add: notification_def)
qed

theorem plain_get_answered_once_witness:
  "Code (request codes_GET Confirmable None) = codes_GET \<and>
   OptObserve (request codes_GET Confirmable None) = None \<and>
   map Body (news world0 (snd (handleObserve env_ok rw0 (request codes_GET Confirmable None) world0))) =
     [Some ''Been running for 1.000000123s''] \<and>
   map OptObserve
     (news world0 (snd (handleObserve env_ok rw0 (request codes_GET Confirmable None) world0))) = [None] \<and>
   spawned (trace (snd (handleObserve env_ok rw0 (request codes_GET Confirmable None) world0))) = []"
  using plain_get_answered_once [of "request codes_GET Confirmable None" env_ok rw0 world0]
  by (simp add: request_def world0_def env_ok_def Sub_def minDuration_def maxDuration_def
      Duration_String_example)

text \<open>
  Against C3 as stated: a server that read its clock an hour ago answers a plain GET with
  \<^verbatim>\<open>Been running for 250ns\<close>, the time between the two readings it takes for this
  response.
\<close>

theorem plain_get_body_not_uptime:
  "reads world1 = 1 \<and> clock env_hour 0 = 0 \<and>
   clock env_hour 1 = 3600000000250 \<and> clock env_hour 2 = 3600000000500 \<and>
   map Body (news world1 (snd (handleObserve env_hour rw0 (request codes_GET Confirmable None) world1))) =
     [Some ''Been running for 250ns'']"
proof -
  have g: "Code (request codes_GET Confirmable None) = codes_GET"
    and o: "OptObserve (request codes_GET Confirmable None) \<noteq> Some 0"
    by (simp_all add: request_def)
  from handleObserve_sync [OF g o, of env_hour rw0 world1] show ?thesis
    by (simp add: world1_def env_hour_def notification_def Sub_def minDuration_def maxDuration_def
        Duration_String_example3)
qed

text \<open>
  C4. When the write of push number \<open>k\<close> is the first to fail, the transmitter has
  written \<open>k\<close> pushes, each followed by a sleep of one second; it then writes the
  failing push, logs one line and returns. Watching longer (any \<open>n > k\<close>) shows
  nothing more: no further write, no further sleep.
\<close>

theorem first_write_error_terminal:
  assumes "\<forall>j<k. wresult e (writes w + j) = None"
    and "wresult e (writes w + k) = Some err"
    and "k < n"
  shows "periodicTransmitter n e cc token w =
     Returned (w\<lparr>trace := trace w @
        concat (map (\<lambda>j. [Write cc (notification token (Sub (clock e (Suc (reads w) + j)) (clock e (reads w)))
                                      (2 + of_nat j)) None,
                         Sleep Second]) [0..<k]) @
        [Write cc (notification token (Sub (clock e (Suc (reads w) + k)) (clock e (reads w))) (2 + of_nat k))
           (Some err),
         Log ''Error on transmitter, stopping: %v''],
        reads := Suc (Suc (reads w) + k), writes := Suc (writes w + k)\<rparr>)"
  by (rule periodicTransmitter_returned [OF assms])

theorem first_write_error_terminal_witness:
  "wresult env_fail 0 = None \<and> wresult env_fail 1 = None \<and>
   wresult env_fail 2 = Some (ErrWrite ''connection closed'') \<and> (2::nat) < 10 \<and>
   periodicTransmitter 10 env_fail conn0 [7, 9] world0 =
     Returned
       \<lparr>trace =
          [Write conn0 (notification [7, 9] 1000000123 2) None, Sleep Second,
           Write conn0 (notification [7, 9] 2000000246 3) None, Sleep Second,
           Write conn0 (notification [7, 9] 3000000369 4) (Some (ErrWrite ''connection closed'')),
           Log ''Error on transmitter, stopping: %v''],
        reads = 4, writes = 3\<rparr>"
proof -
  have ok: "\<forall>j<2. wresult env_fail (writes world0 + j) = None"
    by (simp add: env_fail_def world0_def)
  have bad: "wresult env_fail (writes world0 + 2) = Some (ErrWrite ''connection closed'')"
    by (simp add: env_fail_def world0_def)
  have up: "[0..<2] = [0, 1]"
    by (simp add: upt_rec)
  show ?thesis
    using first_write_error_terminal [OF ok bad, of 10 conn0 "[7, 9]"]
    by (simp add: up env_fail_def world0_def Sub_def minDuration_def maxDuration_def)
qed



text \<open>
  C10. For a request to \<^verbatim>\<open>/observe\<close> whose code is not GET the handler only logs:
  it sets no response, writes nothing to the connection and starts no transmitter.
\<close>

theorem other_method_no_response:
  assumes "Code r \<noteq> codes_GET"
  shows "fst (handleObserve e rw r w) = rw \<and>
         trace (snd (handleObserve e rw r w)) =
           trace w @ (case OptPath r of None \<Rightarrow> [Log ''cannot get path: %v''] | Some p \<Rightarrow> []) @
             [Log ''Got message path=%v: %+v from %v''] \<and>
         writes (snd (handleObserve e rw r w)) = writes w \<and>
         written (trace (snd (handleObserve e rw r w))) = written (trace w) \<and>
         spawned (trace (snd (handleObserve e rw r w))) = spawned (trace w)"
  using assms
  by (simp add: handleObserve_def getPath_def Options_Path_def logPrintf_def
      written_append spawned_append split: option.splits)

theorem other_method_no_response_witness:
  "Code (request codes_POST Confirmable (Some 0)) \<noteq> codes_GET \<and>
   fst (handleObserve env_ok rw0 (request codes_POST Confirmable (Some 0)) world0) = rw0 \<and>
   trace (snd (handleObserve env_ok rw0 (request codes_POST Confirmable (Some 0)) world0)) =
     [Log ''Got message path=%v: %+v from %v'']"
  using other_method_no_response [of "request codes_POST Confirmable (Some 0)" env_ok rw0 world0]
  by (simp add: request_def world0_def codes_POST_def codes_GET_def)

text \<open>
  C8. When the discovery handler sets a response (it sets none when the path of the
  request cannot be read), the body is \<^verbatim>\<open>mcast response\<close> and the content format
  is text/plain. Every message a transmitter writes has the content format text/plain
  and the body \<^verbatim>\<open>Been running for\<close> followed by the duration, as Go prints it, from
  the clock reading the transmitter took when it started to the reading taken for that
  push.
\<close>

theorem response_bodies:
  "response (fst (handleMcast rw r w)) =
     (case OptPath r of
        None \<Rightarrow> response rw
      | Some p \<Rightarrow> (response rw)\<lparr>Code := codes_Content, OptPath := None, OptObserve := None,
                                  OptContentFormat := Some TextPlain,
                                  Body := Some ''mcast response''\<rparr>) \<and>
   (\<forall>k<length (news w (world_of (periodicTransmitter n e cc token w))).
      Body (news w (world_of (periodicTransmitter n e cc token w)) ! k) =
        Some (''Been running for '' @
              Duration_String (Sub (clock e (Suc (reads w) + k)) (clock e (reads w)))) \<and>
      OptContentFormat (news w (world_of (periodicTransmitter n e cc token w)) ! k) = Some TextPlain)"
proof -
  have mcast: "response (fst (handleMcast rw r w)) =
     (case OptPath r of
        None \<Rightarrow> response rw
      | Some p \<Rightarrow> (response rw)\<lparr>Code := codes_Content, OptPath := None, OptObserve := None,
                                  OptContentFormat := Some TextPlain,
                                  Body := Some ''mcast response''\<rparr>)"
    by (simp add: handleMcast_def Options_Path_def SetResponse_def Let_def split: option.splits)
  from periodicTransmitter_written [of w n e cc token] obtain ms where
    ms: "news w (world_of (periodicTransmitter n e cc token w)) = ms"
      "\<forall>k<length ms. ms ! k =
         notification token (Sub (clock e (Suc (reads w) + k)) (clock e (reads w))) (2 + of_nat k)"
    by blast
  have "\<forall>k<length ms.
      Body (ms ! k) =
        Some (''Been running for '' @
              Duration_String (Sub (clock e (Suc (reads w) + k)) (clock e (reads w)))) \<and>
      OptContentFormat (ms ! k) = Some TextPlain"
    using ms(2) by (simp add: notification_def)
  with mcast ms(1) show ?thesis by simp
qed

theorem response_bodies_witness:
  "(1::nat) < length (news world0 (world_of (periodicTransmitter 2 env_ok conn0 [7, 9] world0))) \<and>
   Body (response (fst (handleMcast rw0 (request codes_GET NonConfirmable None) world0))) =
     Some ''mcast response'' \<and>
   OptContentFormat (response (fst (handleMcast rw0 (request codes_GET NonConfirmable None) world0))) =
     Some TextPlain \<and>
   Body (news world0 (world_of (periodicTransmitter 2 env_ok conn0 [7, 9] world0)) ! 1) =
     Some ''Been running for 2.000000246s'' \<and>
   OptContentFormat (news world0 (world_of (periodicTransmitter 2 env_ok conn0 [7, 9] world0)) ! 1) =
     Some TextPlain"
proof -
  have ok: "\<forall>j<2. wresult env_ok (writes world0 + j) = None"
    by (simp add: env_ok_def)
  have len: "1 < length (news world0 (world_of (periodicTransmitter 2 env_ok conn0 [7, 9] world0)))"
    by (simp add: periodicTransmitter_running_news [OF ok])
  have clk: "Sub (clock env_ok (Suc (reads world0) + 1)) (clock env_ok (reads world0)) = 2000000246"
    by (simp add: env_ok_def world0_def Sub_def minDuration_def maxDuration_def)
  note all = response_bodies [of rw0 "request codes_GET NonConfirmable None" world0 2 env_ok conn0 "[7, 9]"]
  have path: "OptPath (request codes_GET NonConfirmable None) = Some ''/observe''"
    by (simp add: request_def)
  from all have mcast:
    "response (fst (handleMcast rw0 (request codes_GET NonConfirmable None) world0)) =
       (response rw0)\<lparr>Code := codes_Content, OptPath := None, OptObserve := None,
                          OptContentFormat := Some TextPlain,
                          Body := Some ''mcast response''\<rparr>"
    unfolding path by simp
  from all have "\<forall>k<length (news world0 (world_of (periodicTransmitter 2 env_ok conn0 [7, 9] world0))).
      Body (news world0 (world_of (periodicTransmitter 2 env_ok conn0 [7, 9] world0)) ! k) =
        Some (''Been running for '' @
              Duration_String (Sub (clock env_ok (Suc (reads world0) + k)) (clock env_ok (reads world0)))) \<and>
      OptContentFormat (news world0 (world_of (periodicTransmitter 2 env_ok conn0 [7, 9] world0)) ! k) =
        Some TextPlain"
    by (rule conjunct2)
  from this [rule_format, OF len] have push:
    "Body (news world0 (world_of (periodicTransmitter 2 env_ok conn0 [7, 9] world0)) ! 1) =
        Some (''Been running for '' @ Duration_String 2000000246)"
    "OptContentFormat (news world0 (world_of (periodicTransmitter 2 env_ok conn0 [7, 9] world0)) ! 1) =
        Some TextPlain"
    unfolding clk by (rule conjunct1, rule conjunct2)
  show ?thesis
    unfolding mcast push Duration_String_example2 using len by simp
qed

section \<open>Properties of the client\<close>

subsection \<open>Splitting an address\<close>

lemma IndexByte_None: "IndexByte xs c = None \<longleftrightarrow> c \<notin> set xs"
  by (induction xs) auto

lemma LastIndexByte_None: "LastIndexByte xs c = None \<longleftrightarrow> c \<notin> set xs"
  by (induction xs) (auto split: option.splits)

lemma IndexByte_Some: "IndexByte xs c = Some i \<Longrightarrow> i < length xs \<and> xs ! i = c \<and> c \<notin> set (take i xs)"
  by (induction xs arbitrary: i) (auto split: if_splits)

lemma LastIndexByte_Some:
  "LastIndexByte xs c = Some i \<Longrightarrow> i < length xs \<and> xs ! i = c \<and> c \<notin> set (drop (Suc i) xs)"
  by (induction xs arbitrary: i) (auto split: option.splits if_splits simp: LastIndexByte_None)

lemma LastIndexByte_append:
  "c \<notin> set ys \<Longrightarrow> LastIndexByte (xs @ c # ys) c = Some (length xs)"
  by (induction xs) (auto simp: LastIndexByte_None split: option.splits)


lemma SplitHostPort_host:
  assumes "SplitHostPort a = Inr (host, port)"
  shows "CHR ''['' \<notin> set host \<and> CHR '']'' \<notin> set host \<and> a \<noteq> []"
proof -
  from assms obtain i where i: "LastIndexByte a CHR '':'' = Some i"
    by (auto simp: SplitHostPort_def split: option.splits)
  then have ne: "a \<noteq> []" by auto
  show ?thesis
  proof (cases "a ! 0 = CHR ''[''")
    case True
    with assms i obtain close where c: "IndexByte a CHR '']'' = Some close"
      and t: "splitTail a i (take (close - 1) (drop 1 a)) 1 (close + 1) = Inr (host, port)"
      by (auto simp: SplitHostPort_def split: option.splits if_splits)
    from t have host: "host = take (close - 1) (drop 1 a)"
      by (auto simp: splitTail_def split: if_splits)
    from t have nb: "CHR ''['' \<notin> set (drop 1 a)"
      by (auto simp: splitTail_def IndexByte_None split: if_splits)
    from IndexByte_Some [OF c] have "CHR '']'' \<notin> set (take close a)" by simp
    moreover have "set host \<subseteq> set (take close a)"
      unfolding host by (metis drop_take set_drop_subset One_nat_def)
    moreover have "set host \<subseteq> set (drop 1 a)"
      unfolding host by (rule set_take_subset)
    ultimately show ?thesis using nb ne by blast
  next
    case False
    with assms i have t: "splitTail a i (take i a) 0 0 = Inr (host, port)"
      by (auto simp: SplitHostPort_def Let_def split: option.splits if_splits)
    then have host: "host = take i a"
      by (auto simp: splitTail_def split: if_splits)
    from t have "CHR ''['' \<notin> set a" "CHR '']'' \<notin> set a"
      by (auto simp: splitTail_def IndexByte_None split: if_splits)
    moreover have "set host \<subseteq> set a" unfolding host by (rule set_take_subset)
    ultimately show ?thesis using ne by blast
  qed
qed

lemma SplitHostPort_join:
  assumes "CHR '':'' \<notin> set host" "CHR ''['' \<notin> set host" "CHR '']'' \<notin> set host"
  shows "SplitHostPort (host @ '':5688'') = Inr (host, ''5688'')"
proof -
  have li: "LastIndexByte (host @ CHR '':'' # ''5688'') CHR '':'' = Some (length host)"
    by (rule LastIndexByte_append) simp
  have h0: "(host @ '':5688'') ! 0 \<noteq> CHR ''[''"
    using assms(2) by (cases host) auto
  show ?thesis
    using li h0 assms
    by (simp add: SplitHostPort_def splitTail_def IndexByte_None Let_def)
qed

subsection \<open>The discovery callbacks\<close>









lemma split_ex2: "SplitHostPort ''203.0.113.5:5683'' = Inr (''203.0.113.5'', ''5683'')"
  by code_simp






lemma split_ex5: "SplitHostPort ''203.0.113.9:5683'' = Inr (''203.0.113.9'', ''5683'')"
  by code_simp

subsection \<open>The callbacks under any schedule\<close>










subsection \<open>Some schedules\<close>








section \<open>The claims about the client\<close>







text \<open>
  C7. When the address of the selected device splits into host and port, the observer
  address is that host, unchanged, followed by a colon and 5688; and when the host holds
  no colon (an IPv4 address or a name) the observer address splits back into that host
  and the port 5688.
\<close>

theorem observer_address:
  assumes "SplitHostPort dev = Inr (host, port)"
  shows "observerAddr dev = Inr (host @ '':5688'') \<and>
         (CHR '':'' \<notin> set host \<longrightarrow> SplitHostPort (host @ '':5688'') = Inr (host, ''5688''))"
  using assms SplitHostPort_host [OF assms] SplitHostPort_join [of host]
  by (simp add: observerAddr_def)

theorem observer_address_witness:
  "SplitHostPort ''203.0.113.5:5683'' = Inr (''203.0.113.5'', ''5683'') \<and>
   CHR '':'' \<notin> set ''203.0.113.5'' \<and>
   observerAddr ''203.0.113.5:5683'' = Inr ''203.0.113.5:5688'' \<and>
   SplitHostPort ''203.0.113.5:5688'' = Inr (''203.0.113.5'', ''5688'')"
  using observer_address [OF split_ex2] split_ex2
  by simp

end